theory Spec2Isabelle
  imports Complex_Main "HOL-Library.State_Monad"
begin

section \<open>The double pendulum of \<open>final_double_pendulum.ipynb\<close>\<close>

text \<open>
  The notebook defines a class \<open>DoublePendulum\<close> with a constructor and two methods,
  \<open>dy_dt\<close> (the right-hand side of the equations of motion) and \<open>solve_ode\<close> (a call
  of SciPy's \<open>solve_ivp\<close> on that right-hand side).

  Numbers: Python floats are idealised as the reals. Rounding, overflow and the bit
  patterns of results are outside the model. The one floating-point effect that is kept
  is division by zero: NumPy's float division does not raise, it yields an infinity or a
  NaN, and the model writes that outcome as \<open>None\<close>. A divisor is zero as a float also
  when it underflows, and the model keeps that too.
\<close>

subsection \<open>Data\<close>

text \<open>The instance: the five attributes that \<open>__init__\<close> assigns, in its order.\<close>

record DoublePendulum =
  L1 :: real
  L2 :: real
  g :: real
  m1 :: real
  m2 :: real

text \<open>
  The exceptions that the code of the class can raise itself: a subscript out of range
  (\<open>IndexError\<close>), an unpacking of the wrong number of values (\<open>ValueError\<close>) and a
  read of an attribute that the instance does not have (\<open>AttributeError\<close>).
\<close>

datatype error = IndexError | ValueError | AttributeError

text \<open>
  \<open>__init__(self, L1=1., L2=1., m1=1., m2=1., g=1.)\<close>: the parameters in the order of
  the signature; each is stored in the attribute of its name.
\<close>

definition init :: "real \<Rightarrow> real \<Rightarrow> real \<Rightarrow> real \<Rightarrow> real \<Rightarrow> DoublePendulum" where
  "init L1' L2' m1' m2' g' = \<lparr>L1 = L1', L2 = L2', g = g', m1 = m1', m2 = m2'\<rparr>"

text \<open>The instance of the notebook: \<open>p1 = DoublePendulum(L1=1., L2=1., m1=1., m2=1., g=1.)\<close>.\<close>

definition p1 :: DoublePendulum where
  "p1 = init 1 1 1 1 1"

text \<open>
  An instance with all parameters positive and three of them very small:
  \<open>DoublePendulum(L1=1e-200, m1=1e-200, m2=1e-200)\<close>, with \<open>L2\<close> and \<open>g\<close> at their
  default 1.
\<close>

definition tiny_pendulum :: DoublePendulum where
  "tiny_pendulum = init (1 / 10 ^ 200) 1 (1 / 10 ^ 200) (1 / 10 ^ 200) 1"

subsection \<open>The right-hand side \<open>dy_dt\<close>\<close>

text \<open>
  Division of NumPy floats: a zero divisor gives \<open>inf\<close> or \<open>nan\<close> (and a warning), never
  an exception. \<open>None\<close> stands for that outcome of a division by zero.

  The divisor arrives as a double. A real number of magnitude at most \<open>2^-1075\<close>, half
  the least positive double, is the double \<open>0.0\<close> (rounding to nearest, ties to even),
  and every real number of larger magnitude is a double other than zero. So the float
  divisor that the real number \<open>b\<close> stands for is zero exactly when \<open>\<bar>b\<bar> \<le> 2^-1075\<close>.
  Both divisors of \<open>dy_dt\<close> are products, and a product of two tiny positive factors is
  where this happens.
\<close>

definition np_div :: "real \<Rightarrow> real \<Rightarrow> real option" where
  "np_div a b = (if \<bar>b\<bar> \<le> 1 / 2 ^ 1075 then None else Some (a / b))"

text \<open>
  The locals of \<open>dy_dt\<close>:
  \<^verbatim>\<open>cosp , sinp = np.cos(y[0]-y[2]), np.sin(y[0]-y[2])\<close> and
  \<^verbatim>\<open>d = (self.m1+self.m2 * sinp**2)\<close>.
\<close>

definition dy_dt_cosp :: "real list \<Rightarrow> real" where
  "dy_dt_cosp y = cos (y ! 0 - y ! 2)"

definition dy_dt_sinp :: "real list \<Rightarrow> real" where
  "dy_dt_sinp y = sin (y ! 0 - y ! 2)"

definition dy_dt_d :: "DoublePendulum \<Rightarrow> real list \<Rightarrow> real" where
  "dy_dt_d self y = m1 self + m2 self * (dy_dt_sinp y)\<^sup>2"

text \<open>
  \<open>dy_dt(self, t, y)\<close>. The state \<open>y\<close> is a sequence read at the indices 0 to 3; on a
  sequence of fewer than four entries one of these reads raises \<open>IndexError\<close>, and
  entries beyond the fourth are ignored. The result is the 4-tuple
  \<open>y[1], phi1_doubledot, y[3], phi2_doubledot\<close>.
\<close>

type_synonym rhs_value = "real \<times> real option \<times> real \<times> real option"

definition dy_dt :: "DoublePendulum \<Rightarrow> real \<Rightarrow> real list \<Rightarrow> error + rhs_value" where
  "dy_dt self t y =
     (if length y < 4 then Inl IndexError
      else
        let cosp = dy_dt_cosp y; sinp = dy_dt_sinp y;
            d = dy_dt_d self y;
            phi1_doubledot =
              np_div (m2 self * g self * sin (y ! 2) * cosp
                        - m2 self * sinp * (L1 self * (y ! 1)\<^sup>2 * cosp + L2 self * (y ! 3)\<^sup>2)
                        - (m1 self + m2 self) * g self * sin (y ! 0))
                     (L1 self * d);
            phi2_doubledot =
              np_div ((m1 self + m2 self)
                          * (L1 self * (y ! 1)\<^sup>2 * sinp - g self * sin (y ! 2)
                               + g self * sin (y ! 0) * cosp)
                        + m2 self * L2 self * (y ! 3)\<^sup>2 * sinp * cosp)
                     (L2 self * d)
        in Inr (y ! 1, phi1_doubledot, y ! 3, phi2_doubledot))"

text \<open>
  Negation of a value of \<open>dy_dt\<close>, component by component. The negative of an infinity
  or a NaN is again not finite.
\<close>

definition neg_rhs :: "rhs_value \<Rightarrow> rhs_value" where
  "neg_rhs v = (case v of (a, b, c, e) \<Rightarrow> (- a, map_option uminus b, - c, map_option uminus e))"

subsection \<open>The integration driver \<open>solve_ode\<close>\<close>

text \<open>
  \<open>solve_ode\<close> calls \<open>scipy.integrate.solve_ivp\<close>, which is a library and not part of
  the notebook. It is a parameter of the model: a function of the right-hand side, the
  span \<open>(t0, tf)\<close>, the initial state, \<open>t_eval\<close>, \<open>atol\<close> and \<open>rtol\<close>. A call of it
  raises (\<open>Some (Inl e)\<close>), returns a result object (\<open>Some (Inr r)\<close>), or has no outcome
  (\<open>None\<close>: the stepping loop need not come to an end). Of the result object the model
  keeps the sample times \<open>t\<close>, the state matrix \<open>y\<close> (one row per component, one column
  per sample), the integer \<open>status\<close> and the flag \<open>success\<close>.
\<close>

record OdeResult =
  sol_t :: "real list"
  sol_y :: "real list list"
  status :: int
  success :: bool

type_synonym rhs = "real \<Rightarrow> real list \<Rightarrow> error + rhs_value"

type_synonym ivp_solver =
  "rhs \<Rightarrow> real \<times> real \<Rightarrow> real list \<Rightarrow> real list \<Rightarrow> real \<Rightarrow> real \<Rightarrow> (error + OdeResult) option"

type_synonym columns = "real list \<times> real list \<times> real list \<times> real list"

text \<open>
  \<^verbatim>\<open>phi1, phi1_dot, phi2, phi2_dot = solution.y\<close>: unpacking iterates over the rows of
  \<open>y\<close> and raises \<open>ValueError\<close> unless there are exactly four.
\<close>

fun unpack4 :: "real list list \<Rightarrow> error + columns" where
  "unpack4 [phi1, phi1_dot, phi2, phi2_dot] = Inr (phi1, phi1_dot, phi2, phi2_dot)"
| "unpack4 _ = Inl ValueError"

text \<open>
  \<open>solve_ode(self, t_pts, phi1_0, phi1_dot_0, phi2_0, phi2_dot_0, abserr, relerr)\<close>.
  The arguments of the call of \<open>solve_ivp\<close> are evaluated first: \<open>t_pts[0]\<close> raises
  \<open>IndexError\<close> on an empty \<open>t_pts\<close>; on a non-empty one \<open>t_pts[0]\<close> and \<open>t_pts[-1]\<close>
  are its first and last entry. An exception of the solver propagates. The result
  object's \<open>status\<close>, \<open>success\<close> and \<open>t\<close> are not read. The value returned is the
  4-tuple \<open>phi1, phi1_dot, phi2, phi2_dot\<close>.
\<close>

definition solve_ode ::
  "ivp_solver \<Rightarrow> DoublePendulum \<Rightarrow> real list \<Rightarrow> real \<Rightarrow> real \<Rightarrow> real \<Rightarrow> real \<Rightarrow> real \<Rightarrow> real
     \<Rightarrow> (error + columns) option" where
  "solve_ode solve_ivp self t_pts phi1_0 phi1_dot_0 phi2_0 phi2_dot_0 abserr relerr =
     (let y = [phi1_0, phi1_dot_0, phi2_0, phi2_dot_0] in
      if t_pts = [] then Some (Inl IndexError)
      else
        case solve_ivp (dy_dt self) (hd t_pts, last t_pts) y t_pts abserr relerr of
          None \<Rightarrow> None
        | Some (Inl e) \<Rightarrow> Some (Inl e)
        | Some (Inr solution) \<Rightarrow> Some (unpack4 (sol_y solution)))"

subsection \<open>Outcomes of \<open>solve_ivp\<close> that need no integration\<close>

text \<open>
  To evaluate \<open>solve_ode\<close> on concrete inputs the solver parameter has to be given.
  \<open>solve_ivp_known\<close> gives the outcome of \<open>solve_ivp\<close> (its default method, an explicit
  Runge-Kutta pair with step size control) in the situations where that outcome follows
  without computing a trajectory, and \<open>None\<close> everywhere else. In the order in which
  \<open>solve_ivp\<close> proceeds:

  \<^item> \<open>t_eval\<close> is checked against the span: every entry has to lie between \<open>t0\<close> and
    \<open>tf\<close>, and the entries have to increase strictly if \<open>tf > t0\<close> and decrease strictly
    if \<open>tf < t0\<close>; otherwise \<open>ValueError\<close> is raised. A decreasing grid is integrated
    backwards.
  \<^item> The right-hand side is evaluated at the initial time and state when the method is
    set up; an exception of it propagates.
  \<^item> If \<open>t0 = tf\<close> the integration is finished at once, no sample is stored, and the
    result has \<open>status = 0\<close> and empty \<open>t\<close> and \<open>y\<close>.
  \<^item> If an acceleration is not finite at the initial state, no step is ever accepted,
    the step size falls below the spacing of floats, and the result has \<open>status = -1\<close>,
    \<open>success = False\<close> and empty \<open>t\<close> and \<open>y\<close>.
  \<^item> If the right-hand side is zero at the initial state (a pendulum at rest; the
    right-hand side does not depend on the time), every stage of every step is zero,
    every step is accepted, and the result has \<open>status = 0\<close> and the initial state at
    every time of \<open>t_eval\<close>.
  \<^item> In every other situation the outcome is a computed trajectory, which this model
    does not determine.
\<close>

fun within_span :: "real \<Rightarrow> real \<Rightarrow> real list \<Rightarrow> bool" where
  "within_span lo hi [] = True"
| "within_span lo hi (t # ts) = (lo \<le> t \<and> t \<le> hi \<and> within_span lo hi ts)"

fun increasing :: "real list \<Rightarrow> bool" where
  "increasing (a # b # ts) = (a < b \<and> increasing (b # ts))"
| "increasing _ = True"

fun decreasing :: "real list \<Rightarrow> bool" where
  "decreasing (a # b # ts) = (b < a \<and> decreasing (b # ts))"
| "decreasing _ = True"

definition t_eval_accepted :: "real \<Rightarrow> real \<Rightarrow> real list \<Rightarrow> bool" where
  "t_eval_accepted t0 tf t_eval =
     (within_span (min t0 tf) (max t0 tf) t_eval
      \<and> (if t0 < tf then increasing t_eval else if tf < t0 then decreasing t_eval else True))"

text \<open>The outcome once \<open>t_eval\<close> is accepted, from the value of the right-hand side.\<close>

definition known_outcome ::
  "error + rhs_value \<Rightarrow> real \<times> real \<Rightarrow> real list \<Rightarrow> real list \<Rightarrow> (error + OdeResult) option" where
  "known_outcome f0 t_span y0 t_eval =
     (case f0 of
        Inl e \<Rightarrow> Some (Inl e)
      | Inr (v1, a1, v2, a2) \<Rightarrow>
          if fst t_span = snd t_span
            then Some (Inr \<lparr>sol_t = [], sol_y = [], status = 0, success = True\<rparr>)
          else if a1 = None \<or> a2 = None
            then Some (Inr \<lparr>sol_t = [], sol_y = [], status = - 1, success = False\<rparr>)
          else if v1 = 0 \<and> a1 = Some 0 \<and> v2 = 0 \<and> a2 = Some 0
            then Some (Inr \<lparr>sol_t = t_eval, sol_y = map (\<lambda>v. map (\<lambda>_. v) t_eval) y0,
                           status = 0, success = True\<rparr>)
          else None)"

definition solve_ivp_known :: ivp_solver where
  "solve_ivp_known f t_span y0 t_eval atol rtol =
     (if \<not> t_eval_accepted (fst t_span) (snd t_span) t_eval then Some (Inl ValueError)
      else known_outcome (f (fst t_span) y0) t_span y0 t_eval)"

subsection \<open>The method bodies as programs on the instance\<close>

text \<open>
  To say what a call leaves behind, the bodies are written once more as programs that
  run on the instance: the state is the attribute dictionary of \<open>self\<close>, an attribute
  reference \<open>self.a\<close> reads it, an attribute assignment \<open>self.a = v\<close> writes it, and
  operands are evaluated from left to right. The instance after a call is whatever the
  statements of the body make of it.
\<close>

type_synonym attributes = "string \<rightharpoonup> real"

type_synonym 'a prog = "(attributes, error + 'a) state"

definition ret :: "'a \<Rightarrow> 'a prog" where
  "ret v = State_Monad.return (Inr v)"

definition raise :: "error \<Rightarrow> 'a prog" where
  "raise e = State_Monad.return (Inl e)"

text \<open>Sequencing: an exception ends the evaluation.\<close>

definition seq :: "'a prog \<Rightarrow> ('a \<Rightarrow> 'b prog) \<Rightarrow> 'b prog" where
  "seq m k = State_Monad.bind m (\<lambda>r. case r of Inl e \<Rightarrow> raise e | Inr v \<Rightarrow> k v)"

definition getattr :: "string \<Rightarrow> real prog" where
  "getattr a =
     State_Monad.bind State_Monad.get
       (\<lambda>self. case self a of None \<Rightarrow> raise AttributeError | Some v \<Rightarrow> ret v)"

definition setattr :: "string \<Rightarrow> real \<Rightarrow> unit prog" where
  "setattr a v = State_Monad.bind (State_Monad.update (\<lambda>self. self(a \<mapsto> v))) (\<lambda>_. ret ())"

text \<open>Subscripts \<open>y[i]\<close> with \<open>i \<ge> 0\<close>, and \<open>y[-1]\<close>.\<close>

definition item :: "real list \<Rightarrow> nat \<Rightarrow> real prog" where
  "item y i = (if i < length y then ret (y ! i) else raise IndexError)"

definition item_last :: "real list \<Rightarrow> real prog" where
  "item_last y = (if y = [] then raise IndexError else ret (last y))"

text \<open>An operator applied to one operand, and to two operands from left to right.\<close>

definition op1 :: "(real \<Rightarrow> 'a) \<Rightarrow> real prog \<Rightarrow> 'a prog" where
  "op1 f a = seq a (\<lambda>x. ret (f x))"

definition op2 :: "(real \<Rightarrow> real \<Rightarrow> 'a) \<Rightarrow> real prog \<Rightarrow> real prog \<Rightarrow> 'a prog" where
  "op2 f a b = seq a (\<lambda>x. seq b (\<lambda>y. ret (f x y)))"

text \<open>
  \<open>__init__\<close>: five attribute assignments, in the order of the source. A constructor
  call runs it on a new instance, which has no attribute yet.
\<close>

definition init_m :: "real \<Rightarrow> real \<Rightarrow> real \<Rightarrow> real \<Rightarrow> real \<Rightarrow> unit prog" where
  "init_m L1' L2' m1' m2' g' =
     seq (setattr ''L1'' L1') (\<lambda>_.
     seq (setattr ''L2'' L2') (\<lambda>_.
     seq (setattr ''g'' g') (\<lambda>_.
     seq (setattr ''m1'' m1') (\<lambda>_.
     setattr ''m2'' m2'))))"

text \<open>The attribute dictionary of an instance given as a record.\<close>

definition attrs :: "DoublePendulum \<Rightarrow> attributes" where
  "attrs self =
     [''L1'' \<mapsto> L1 self, ''L2'' \<mapsto> L2 self, ''g'' \<mapsto> g self, ''m1'' \<mapsto> m1 self,
      ''m2'' \<mapsto> m2 self]"

text \<open>
  \<open>dy_dt\<close>, statement by statement: the tuple assignment of \<open>cosp\<close> and \<open>sinp\<close>, the
  assignments of \<open>d\<close>, \<open>phi1_doubledot\<close> and \<open>phi2_doubledot\<close>, and the \<open>return\<close>.
\<close>

definition dy_dt_m :: "real \<Rightarrow> real list \<Rightarrow> rhs_value prog" where
  "dy_dt_m t y =
     seq (op1 cos (op2 (-) (item y 0) (item y 2))) (\<lambda>cosp.
     seq (op1 sin (op2 (-) (item y 0) (item y 2))) (\<lambda>sinp.
     seq (op2 (+) (getattr ''m1'') (op2 (*) (getattr ''m2'') (op1 (\<lambda>x. x\<^sup>2) (ret sinp)))) (\<lambda>d.
     seq (op2 np_div
            (op2 (-)
               (op2 (-)
                  (op2 (*) (op2 (*) (op2 (*) (getattr ''m2'') (getattr ''g''))
                                    (op1 sin (item y 2)))
                           (ret cosp))
                  (op2 (*) (op2 (*) (getattr ''m2'') (ret sinp))
                           (op2 (+) (op2 (*) (op2 (*) (getattr ''L1'')
                                                      (op1 (\<lambda>x. x\<^sup>2) (item y 1)))
                                             (ret cosp))
                                    (op2 (*) (getattr ''L2'') (op1 (\<lambda>x. x\<^sup>2) (item y 3))))))
               (op2 (*) (op2 (*) (op2 (+) (getattr ''m1'') (getattr ''m2'')) (getattr ''g''))
                        (op1 sin (item y 0))))
            (op2 (*) (getattr ''L1'') (ret d))) (\<lambda>phi1_doubledot.
     seq (op2 np_div
            (op2 (+)
               (op2 (*) (op2 (+) (getattr ''m1'') (getattr ''m2''))
                        (op2 (+)
                           (op2 (-) (op2 (*) (op2 (*) (getattr ''L1'')
                                                      (op1 (\<lambda>x. x\<^sup>2) (item y 1)))
                                             (ret sinp))
                                    (op2 (*) (getattr ''g'') (op1 sin (item y 2))))
                           (op2 (*) (op2 (*) (getattr ''g'') (op1 sin (item y 0)))
                                    (ret cosp))))
               (op2 (*) (op2 (*) (op2 (*) (op2 (*) (getattr ''m2'') (getattr ''L2''))
                                          (op1 (\<lambda>x. x\<^sup>2) (item y 3)))
                                 (ret sinp))
                        (ret cosp)))
            (op2 (*) (getattr ''L2'') (ret d))) (\<lambda>phi2_doubledot.
     seq (item y 1) (\<lambda>y1.
     seq (item y 3) (\<lambda>y3.
     ret (y1, phi1_doubledot, y3, phi2_doubledot))))))))"

text \<open>
  \<open>solve_ode\<close> as a program. The solver is called with the bound method \<open>self.dy_dt\<close>,
  which runs on the same instance; what the solver does to the instance is the
  solver's. A call has an outcome, or none.
\<close>

type_synonym 'a call = "(attributes, (error + 'a) option) state"

type_synonym ivp_solver_m =
  "(real \<Rightarrow> real list \<Rightarrow> rhs_value prog) \<Rightarrow> real \<times> real \<Rightarrow> real list \<Rightarrow> real list
     \<Rightarrow> real \<Rightarrow> real \<Rightarrow> OdeResult call"

definition then_call :: "'a prog \<Rightarrow> ('a \<Rightarrow> 'b call) \<Rightarrow> 'b call" where
  "then_call m k =
     State_Monad.bind m
       (\<lambda>r. case r of Inl e \<Rightarrow> State_Monad.return (Some (Inl e)) | Inr v \<Rightarrow> k v)"

definition solve_ode_m ::
  "ivp_solver_m \<Rightarrow> real list \<Rightarrow> real \<Rightarrow> real \<Rightarrow> real \<Rightarrow> real \<Rightarrow> real \<Rightarrow> real \<Rightarrow> columns call" where
  "solve_ode_m solve_ivp t_pts phi1_0 phi1_dot_0 phi2_0 phi2_dot_0 abserr relerr =
     (let y = [phi1_0, phi1_dot_0, phi2_0, phi2_dot_0] in
      then_call (item t_pts 0) (\<lambda>t0.
      then_call (item_last t_pts) (\<lambda>tf.
      State_Monad.bind (solve_ivp dy_dt_m (t0, tf) y t_pts abserr relerr)
        (\<lambda>r. State_Monad.return
               (case r of
                  None \<Rightarrow> None
                | Some (Inl e) \<Rightarrow> Some (Inl e)
                | Some (Inr solution) \<Rightarrow> Some (unpack4 (sol_y solution)))))))"

text \<open>
  The solver of the preceding subsection as a program: it calls the right-hand side
  once, at the initial time and state, when it sets the method up.
\<close>

definition solve_ivp_known_m :: ivp_solver_m where
  "solve_ivp_known_m f t_span y0 t_eval atol rtol =
     (if \<not> t_eval_accepted (fst t_span) (snd t_span) t_eval
      then State_Monad.return (Some (Inl ValueError))
      else State_Monad.bind (f (fst t_span) y0)
             (\<lambda>r. State_Monad.return (known_outcome r t_span y0 t_eval)))"

section \<open>Properties of \<open>dy_dt\<close>\<close>

lemma np_div_neg: "a = - a' \<Longrightarrow> np_div a b = map_option uminus (np_div a' b)"
  by (simp add: np_div_def)


lemma sin_cos_quarter_turn_back: "sin (pi / 2 - pi) = - 1" "cos (pi / 2 - pi) = 0"
proof -
  have "pi / 2 - pi = - (pi / 2)" by simp
  then show "sin (pi / 2 - pi) = - 1" "cos (pi / 2 - pi) = 0"
    by (simp_all only: sin_minus cos_minus sin_pi_half cos_pi_half)
qed





text \<open>
  C8. The derivative does not depend on its time argument: for every instance, every
  state \<open>y\<close> and every two times \<open>t\<close> and \<open>t'\<close>, \<open>dy_dt(t, y) = dy_dt(t', y)\<close>.
\<close>

theorem dy_dt_autonomous: "dy_dt self t y = dy_dt self t' y"
  by (simp add: dy_dt_def)

text \<open>
  C10. The derivative is odd under negation of the whole state: for every \<open>t\<close> and
  every \<open>y = (phi1, phi1_dot, phi2, phi2_dot)\<close>, \<open>dy_dt(t, -y) = -dy_dt(t, y)\<close>
  component by component.
\<close>

theorem dy_dt_odd:
  "dy_dt self t [- phi1, - phi1_dot, - phi2, - phi2_dot]
     = map_sum id neg_rhs (dy_dt self t [phi1, phi1_dot, phi2, phi2_dot])"
proof -
  define s c where "s = sin (phi1 - phi2)" and "c = cos (phi1 - phi2)"
  have s: "sin (phi2 - phi1) = - s"
    unfolding s_def by (metis minus_diff_eq sin_minus)
  have c: "cos (phi2 - phi1) = c"
    unfolding c_def by (metis minus_diff_eq cos_minus)
  show ?thesis
    unfolding dy_dt_def dy_dt_cosp_def dy_dt_sinp_def dy_dt_d_def Let_def neg_rhs_def
    by (simp add: s c s_def [symmetric] c_def [symmetric])
       (intro conjI np_div_neg; simp add: algebra_simps)
qed

section \<open>Properties of \<open>solve_ode\<close>\<close>

lemma unpack4_Inl_iff: "unpack4 ys = Inl e \<longleftrightarrow> length ys \<noteq> 4 \<and> e = ValueError"
  by (cases ys rule: unpack4.cases) auto


text \<open>The pendulum of the notebook hanging straight down is at rest, at every time.\<close>

lemma p1_at_rest: "dy_dt p1 t [0, 0, 0, 0] = Inr (0, Some 0, 0, Some 0)"
  by (simp add: dy_dt_def dy_dt_cosp_def dy_dt_sinp_def dy_dt_d_def Let_def np_div_def
        p1_def init_def)

text \<open>
  C3, as stated: every call of \<open>solve_ode\<close> whose \<open>t_pts\<close> has fewer than two entries or
  is not strictly increasing fails before any integration is attempted. It does not:
  on the decreasing grid \<open>[1, 0]\<close>, for the pendulum of the notebook at rest, the solver
  integrates backwards from \<open>t = 1\<close> to \<open>t = 0\<close> and \<open>solve_ode\<close> returns a trajectory of
  two samples.
\<close>

theorem solve_ode_decreasing_grid_accepted:
  "\<not> increasing [1, 0]
   \<and> solve_ode solve_ivp_known p1 [1, 0] 0 0 0 0 (1 / 10 ^ 10) (1 / 10 ^ 10)
       = Some (Inr ([0, 0], [0, 0], [0, 0], [0, 0]))"
  by (simp add: solve_ode_def solve_ivp_known_def known_outcome_def t_eval_accepted_def p1_at_rest)

text \<open>
  C3, amended: \<open>solve_ode\<close> checks nothing itself. It fails before the solver is called
  only on an empty \<open>t_pts\<close>, with the \<open>IndexError\<close> of \<open>t_pts[0]\<close>. On every non-empty
  \<open>t_pts\<close>, of length one or not increasing too, it calls the solver with the span
  \<open>(t_pts[0], t_pts[-1])\<close> and \<open>t_eval = t_pts\<close>, and it fails exactly when the solver
  raises (the exception propagates) or returns a \<open>y\<close> that does not have four rows
  (\<open>ValueError\<close> of the unpacking).
\<close>

theorem solve_ode_failures:
  "solve_ode S self t_pts phi1_0 phi1_dot_0 phi2_0 phi2_dot_0 abserr relerr = Some (Inl e)
   \<longleftrightarrow> (t_pts = [] \<and> e = IndexError)
       \<or> (t_pts \<noteq> []
          \<and> (S (dy_dt self) (hd t_pts, last t_pts) [phi1_0, phi1_dot_0, phi2_0, phi2_dot_0]
                t_pts abserr relerr = Some (Inl e)
              \<or> (\<exists>sol. S (dy_dt self) (hd t_pts, last t_pts)
                          [phi1_0, phi1_dot_0, phi2_0, phi2_dot_0] t_pts abserr relerr
                        = Some (Inr sol)
                        \<and> length (sol_y sol) \<noteq> 4 \<and> e = ValueError)))"
  by (auto simp: solve_ode_def unpack4_Inl_iff split: sum.splits option.splits)

text \<open>
  The three ways to fail, for the pendulum of the notebook at rest: the empty grid; the
  grid \<open>[0, 2, 1]\<close>, which the solver refuses because \<open>2\<close> lies outside the span
  \<open>(0, 1)\<close>; and the grid \<open>[0]\<close> of one point, on which the solver is called, finishes
  at once and returns an empty \<open>y\<close>, so that the unpacking raises.
\<close>

theorem solve_ode_failures_witness:
  "solve_ode solve_ivp_known p1 [] 0 0 0 0 (1 / 10 ^ 10) (1 / 10 ^ 10) = Some (Inl IndexError)
   \<and> solve_ivp_known (dy_dt p1) (0, 1) [0, 0, 0, 0] [0, 2, 1] (1 / 10 ^ 10) (1 / 10 ^ 10)
       = Some (Inl ValueError)
   \<and> solve_ode solve_ivp_known p1 [0, 2, 1] 0 0 0 0 (1 / 10 ^ 10) (1 / 10 ^ 10)
       = Some (Inl ValueError)
   \<and> solve_ivp_known (dy_dt p1) (0, 0) [0, 0, 0, 0] [0] (1 / 10 ^ 10) (1 / 10 ^ 10)
       = Some (Inr \<lparr>sol_t = [], sol_y = [], status = 0, success = True\<rparr>)
   \<and> solve_ode solve_ivp_known p1 [0] 0 0 0 0 (1 / 10 ^ 10) (1 / 10 ^ 10)
       = Some (Inl ValueError)"
proof -
  have refused: "solve_ivp_known (dy_dt p1) (0, 1) [0, 0, 0, 0] [0, 2, 1]
                   (1 / 10 ^ 10) (1 / 10 ^ 10) = Some (Inl ValueError)"
    by (simp add: solve_ivp_known_def known_outcome_def t_eval_accepted_def)
  have finished: "solve_ivp_known (dy_dt p1) (0, 0) [0, 0, 0, 0] [0]
                    (1 / 10 ^ 10) (1 / 10 ^ 10)
                  = Some (Inr \<lparr>sol_t = [], sol_y = [], status = 0, success = True\<rparr>)"
    by (simp add: solve_ivp_known_def known_outcome_def t_eval_accepted_def p1_at_rest)
  from solve_ode_failures
         [of solve_ivp_known p1 "[]" 0 0 0 0 "1 / 10 ^ 10" "1 / 10 ^ 10" IndexError]
       solve_ode_failures
         [of solve_ivp_known p1 "[0, 2, 1]" 0 0 0 0 "1 / 10 ^ 10" "1 / 10 ^ 10" ValueError]
       solve_ode_failures
         [of solve_ivp_known p1 "[0]" 0 0 0 0 "1 / 10 ^ 10" "1 / 10 ^ 10" ValueError]
       refused finished
  show ?thesis by simp
qed

text \<open>
  With lengths and masses of \<open>1e-200\<close> the first divisor of \<open>dy_dt\<close> underflows, and
  the first acceleration is not finite at the initial state of the notebook.
\<close>

lemma tiny_pendulum_not_finite:
  "dy_dt tiny_pendulum t [pi / 2, 0, pi, 0]
     = Inr (0, None, 0, Some 0)"
  by (simp add: tiny_pendulum_def init_def dy_dt_def dy_dt_cosp_def dy_dt_sinp_def
        dy_dt_d_def Let_def np_div_def sin_cos_quarter_turn_back)

text \<open>
  C4, as stated: when the solver cannot meet the tolerances, \<open>solve_ode\<close> fails with a
  signal that carries the last time reached. It does not: for the instance with
  \<open>L1 = m1 = m2 = 1e-200\<close>, on the grid \<open>[0, 50]\<close> from the initial state of the
  notebook, the solver gives up (\<open>status = -1\<close>, \<open>success = False\<close>, no sample), and
  what \<open>solve_ode\<close> raises is the \<open>ValueError\<close> of unpacking the empty \<open>y\<close>, which
  carries no time and does not come from any check of the solver's outcome.
\<close>

theorem solve_ode_failed_run:
  "solve_ivp_known (dy_dt tiny_pendulum) (0, 50)
       [pi / 2, 0, pi, 0] [0, 50] (1 / 10 ^ 10) (1 / 10 ^ 10)
     = Some (Inr \<lparr>sol_t = [], sol_y = [], status = - 1, success = False\<rparr>)
   \<and> solve_ode solve_ivp_known tiny_pendulum [0, 50] (pi / 2) 0 pi 0 (1 / 10 ^ 10) (1 / 10 ^ 10)
     = Some (Inl ValueError)"
  by (simp add: solve_ode_def solve_ivp_known_def known_outcome_def t_eval_accepted_def
        tiny_pendulum_not_finite)

text \<open>
  C4, amended: \<open>solve_ode\<close> never reads the solver's \<open>status\<close> or \<open>success\<close>, has no
  signal of its own for a failed integration and reports no time. Whenever the solver
  returns a result object, whatever its \<open>status\<close> and \<open>success\<close>, the outcome of
  \<open>solve_ode\<close> is the unpacking of its \<open>y\<close>: the four rows as they are when \<open>y\<close> has
  four rows, so that the samples of a run that failed part of the way are returned
  without any signal, and \<open>ValueError\<close> when it has not, as when the first step fails
  and \<open>y\<close> is empty.
\<close>

theorem solve_ode_ignores_status:
  assumes "t_pts \<noteq> []"
    and "S (dy_dt self) (hd t_pts, last t_pts) [phi1_0, phi1_dot_0, phi2_0, phi2_dot_0]
           t_pts abserr relerr = Some (Inr sol)"
  shows "(sol_y sol = [r1, r2, r3, r4] \<longrightarrow>
            solve_ode S self t_pts phi1_0 phi1_dot_0 phi2_0 phi2_dot_0 abserr relerr
              = Some (Inr (r1, r2, r3, r4)))
       \<and> (length (sol_y sol) \<noteq> 4 \<longrightarrow>
            solve_ode S self t_pts phi1_0 phi1_dot_0 phi2_0 phi2_dot_0 abserr relerr
              = Some (Inl ValueError))"
  using assms by (simp add: solve_ode_def unpack4_Inl_iff)

text \<open>
  Both cases for the pendulum of the notebook at rest: four rows on the first two
  points of the notebook's grid, and an empty \<open>y\<close> on the grid \<open>[0]\<close> of one point.
\<close>

theorem solve_ode_ignores_status_witness:
  "solve_ivp_known (dy_dt p1) (0, 1 / 1000) [0, 0, 0, 0] [0, 1 / 1000]
       (1 / 10 ^ 10) (1 / 10 ^ 10)
     = Some (Inr \<lparr>sol_t = [0, 1 / 1000], sol_y = [[0, 0], [0, 0], [0, 0], [0, 0]],
                  status = 0, success = True\<rparr>)
   \<and> solve_ode solve_ivp_known p1 [0, 1 / 1000] 0 0 0 0 (1 / 10 ^ 10) (1 / 10 ^ 10)
     = Some (Inr ([0, 0], [0, 0], [0, 0], [0, 0]))
   \<and> solve_ivp_known (dy_dt p1) (5, 5) [0, 0, 0, 0] [5] (1 / 10 ^ 10) (1 / 10 ^ 10)
     = Some (Inr \<lparr>sol_t = [], sol_y = [], status = 0, success = True\<rparr>)
   \<and> solve_ode solve_ivp_known p1 [5] 0 0 0 0 (1 / 10 ^ 10) (1 / 10 ^ 10)
     = Some (Inl ValueError)"
proof -
  let ?two = "\<lparr>sol_t = [0, 1 / 1000], sol_y = [[0, 0], [0, 0], [0, 0], [0, 0]],
               status = 0, success = True\<rparr>"
  let ?none = "\<lparr>sol_t = [], sol_y = [], status = 0, success = True\<rparr>"
  have ne: "[0, 1 / 1000] \<noteq> ([] :: real list)" "[5] \<noteq> ([] :: real list)"
    by simp_all
  have run2: "solve_ivp_known (dy_dt p1) (hd [0, 1 / 1000], last [0, 1 / 1000])
                [0, 0, 0, 0] [0, 1 / 1000] (1 / 10 ^ 10) (1 / 10 ^ 10) = Some (Inr ?two)"
    by (simp add: solve_ivp_known_def known_outcome_def t_eval_accepted_def p1_at_rest)
  have run1: "solve_ivp_known (dy_dt p1) (hd [5], last [5]) [0, 0, 0, 0] [5]
                (1 / 10 ^ 10) (1 / 10 ^ 10) = Some (Inr ?none)"
    by (simp add: solve_ivp_known_def known_outcome_def t_eval_accepted_def p1_at_rest)
  from solve_ode_ignores_status
         [where S = solve_ivp_known and self = p1 and t_pts = "[0, 1 / 1000]" and sol = ?two
            and ?r1.0 = "[0, 0]" and ?r2.0 = "[0, 0]" and ?r3.0 = "[0, 0]" and ?r4.0 = "[0, 0]",
          OF ne(1) run2]
       solve_ode_ignores_status
         [where S = solve_ivp_known and self = p1 and t_pts = "[5]" and sol = ?none,
          OF ne(2) run1]
       run2 run1
  show ?thesis by simp
qed




section \<open>The instance across calls\<close>

lemma run_seq:
  "run_state (seq m k) s =
     (case run_state m s of
        (Inl e, s') \<Rightarrow> (Inl e, s')
      | (Inr v, s') \<Rightarrow> run_state (k v) s')"
  by (simp add: seq_def raise_def split: prod.splits sum.splits)

lemma run_getattr:
  "run_state (getattr a) s = ((case s a of None \<Rightarrow> Inl AttributeError | Some v \<Rightarrow> Inr v), s)"
  by (simp add: getattr_def raise_def ret_def split: option.splits)

lemma run_item:
  "run_state (item y i) s = ((if i < length y then Inr (y ! i) else Inl IndexError), s)"
  by (simp add: item_def raise_def ret_def)

lemma run_ret: "run_state (ret v) s = (Inr v, s)"
  by (simp add: ret_def)

lemma run_setattr: "run_state (setattr a v) s = (Inr (), s(a \<mapsto> v))"
  by (simp add: setattr_def ret_def State_Monad.update_def State_Monad.bind_def
        State_Monad.get_def State_Monad.set_def)

text \<open>Programs that leave the instance as it is, and how they compose.\<close>

lemma keeps_ret: "snd (run_state (ret v) s) = s"
  by (simp add: ret_def)

lemma keeps_getattr: "snd (run_state (getattr a) s) = s"
  by (simp add: run_getattr)

lemma keeps_item: "snd (run_state (item y i) s) = s"
  by (simp add: run_item)

lemma keeps_item_last: "snd (run_state (item_last y) s) = s"
  by (simp add: item_last_def raise_def ret_def)

lemma keeps_seq:
  assumes "\<And>s. snd (run_state m s) = s" and "\<And>v s. snd (run_state (k v) s) = s"
  shows "snd (run_state (seq m k) s) = s"
proof (cases "run_state m s")
  case (Pair r s')
  with assms(1) [of s] have "s' = s" by simp
  with Pair assms(2) show ?thesis
    by (cases r) (simp_all add: run_seq)
qed

lemma keeps_op1:
  assumes "\<And>s. snd (run_state a s) = s"
  shows "snd (run_state (op1 f a) s) = s"
  unfolding op1_def by (intro keeps_seq assms keeps_ret)

lemma keeps_op2:
  assumes "\<And>s. snd (run_state a s) = s" and "\<And>s. snd (run_state b s) = s"
  shows "snd (run_state (op2 f a b) s) = s"
  unfolding op2_def by (intro keeps_seq assms keeps_ret)

lemma keeps_then_call:
  assumes "\<And>s. snd (run_state m s) = s" and "\<And>v s. snd (run_state (k v) s) = s"
  shows "snd (run_state (then_call m k) s) = s"
proof (cases "run_state m s")
  case (Pair r s')
  with assms(1) [of s] have "s' = s" by simp
  with Pair assms(2) show ?thesis
    by (cases r) (simp_all add: then_call_def)
qed

lemma keeps_bind_return:
  assumes "\<And>s. snd (run_state m s) = s"
  shows "snd (run_state (State_Monad.bind m (\<lambda>r. State_Monad.return (F r))) s) = s"
proof (cases "run_state m s")
  case (Pair r s')
  with assms [of s] show ?thesis by simp
qed

lemma keeps_dy_dt_m: "snd (run_state (dy_dt_m t y) s) = s"
  unfolding dy_dt_m_def
  by (intro keeps_seq keeps_op1 keeps_op2 keeps_getattr keeps_item keeps_ret)

lemma keeps_solve_ivp_known_m:
  assumes "\<And>t y s'. snd (run_state (f t y) s') = s'"
  shows "snd (run_state (solve_ivp_known_m f t_span y0 t_eval atol rtol) s) = s"
proof (cases "t_eval_accepted (fst t_span) (snd t_span) t_eval")
  case True
  then show ?thesis
    unfolding solve_ivp_known_m_def
    by (simp only: not_True_eq_False if_False) (intro keeps_bind_return assms)
next
  case False
  then show ?thesis by (simp add: solve_ivp_known_m_def)
qed

text \<open>The constructor call makes the instance that the record stands for.\<close>

lemma init_m_attrs:
  "run_state (init_m a b c d e) Map.empty = (Inr (), attrs (init a b c d e))"
  by (simp add: init_m_def run_seq run_setattr attrs_def init_def)

text \<open>
  On the instance of a record the program \<open>dy_dt_m\<close> computes what the function
  \<open>dy_dt\<close> computes, and likewise \<open>solve_ode_m\<close> and \<open>solve_ode\<close> for solvers that
  correspond.
\<close>

lemma run_attr [simp]:
  "run_state (getattr ''L1'') (attrs self) = (Inr (L1 self), attrs self)"
  "run_state (getattr ''L2'') (attrs self) = (Inr (L2 self), attrs self)"
  "run_state (getattr ''g'') (attrs self) = (Inr (g self), attrs self)"
  "run_state (getattr ''m1'') (attrs self) = (Inr (m1 self), attrs self)"
  "run_state (getattr ''m2'') (attrs self) = (Inr (m2 self), attrs self)"
  by (simp_all add: run_getattr attrs_def)

lemma dy_dt_m_dy_dt:
  "run_state (dy_dt_m t y) (attrs self) = (dy_dt self t y, attrs self)"
proof -
  consider "length y = 0" | "length y = 1" | "length y = 2" | "length y = 3" | "4 \<le> length y"
    by linarith
  then show ?thesis
    by cases
      (auto simp add: dy_dt_m_def dy_dt_def dy_dt_cosp_def dy_dt_sinp_def dy_dt_d_def Let_def
         op1_def op2_def run_seq run_item run_ret)
qed

lemma solve_ivp_known_m_solve_ivp_known:
  "run_state (solve_ivp_known_m dy_dt_m t_span y0 t_eval atol rtol) (attrs self)
     = (solve_ivp_known (dy_dt self) t_span y0 t_eval atol rtol, attrs self)"
  by (simp add: solve_ivp_known_m_def solve_ivp_known_def dy_dt_m_dy_dt)

lemma solve_ode_m_solve_ode:
  assumes "\<And>t_span y0 t_eval atol rtol.
             run_state (S_m dy_dt_m t_span y0 t_eval atol rtol) (attrs self)
               = (S (dy_dt self) t_span y0 t_eval atol rtol, attrs self)"
  shows "run_state (solve_ode_m S_m t_pts phi1_0 phi1_dot_0 phi2_0 phi2_dot_0 abserr relerr)
           (attrs self)
         = (solve_ode S self t_pts phi1_0 phi1_dot_0 phi2_0 phi2_dot_0 abserr relerr,
            attrs self)"
proof (cases t_pts)
  case Nil
  then show ?thesis
    by (simp add: solve_ode_m_def solve_ode_def then_call_def run_item)
next
  case (Cons t0 ts)
  then have "hd t_pts = t_pts ! 0" "0 < length t_pts" "t_pts \<noteq> []"
    by simp_all
  then show ?thesis
    by (simp add: solve_ode_m_def solve_ode_def then_call_def run_item item_last_def ret_def
          assms Let_def)
qed

text \<open>
  C7. The parameters \<open>L1\<close>, \<open>L2\<close>, \<open>m1\<close>, \<open>m2\<close>, \<open>g\<close> are set at construction, each
  from the constructor argument of its name: a constructor call leaves an instance
  with exactly these five attributes. They are not changed afterwards and no other
  state is kept: after every call of \<open>dy_dt\<close>, on every instance and every state
  vector, the attribute dictionary is the one from before the call, and so it is after
  every call of \<open>solve_ode\<close>, provided the solver touches the instance only through
  calls of the right-hand side that it is given.
\<close>

theorem instance_unchanged:
  assumes "\<And>f t_span y0 t_eval atol rtol s.
             (\<And>t y s'. snd (run_state (f t y) s') = s')
             \<Longrightarrow> snd (run_state (S f t_span y0 t_eval atol rtol) s) = s"
  shows "snd (run_state (init_m a b c d e) Map.empty)
           = [''L1'' \<mapsto> a, ''L2'' \<mapsto> b, ''g'' \<mapsto> e, ''m1'' \<mapsto> c, ''m2'' \<mapsto> d]
       \<and> snd (run_state (dy_dt_m t y) s) = s
       \<and> snd (run_state
                (solve_ode_m S t_pts phi1_0 phi1_dot_0 phi2_0 phi2_dot_0 abserr relerr) s) = s"
proof -
  have made: "snd (run_state (init_m a b c d e) Map.empty)
                = [''L1'' \<mapsto> a, ''L2'' \<mapsto> b, ''g'' \<mapsto> e, ''m1'' \<mapsto> c, ''m2'' \<mapsto> d]"
    by (simp add: init_m_attrs attrs_def init_def)
  have solver: "snd (run_state (S dy_dt_m t_span y0 t_eval atol rtol) s') = s'"
    for t_span y0 t_eval atol rtol s'
    by (rule assms) (rule keeps_dy_dt_m)
  have solve: "snd (run_state
                 (solve_ode_m S t_pts phi1_0 phi1_dot_0 phi2_0 phi2_dot_0 abserr relerr) s) = s"
    unfolding solve_ode_m_def Let_def
    by (intro keeps_then_call keeps_item keeps_item_last keeps_bind_return solver)
  from made keeps_dy_dt_m solve show ?thesis by blast
qed

text \<open>
  For the instance of the notebook: its construction, a call of \<open>dy_dt\<close> at the
  initial state of the notebook, and a call of \<open>solve_ode\<close> on the grid \<open>[0, 1]\<close> for
  the pendulum at rest.
\<close>

theorem instance_unchanged_witness:
  "snd (run_state (init_m 1 1 1 1 1) Map.empty) = attrs p1
   \<and> snd (run_state (dy_dt_m 0 [pi / 2, 0, pi, 0]) (attrs p1)) = attrs p1
   \<and> run_state (solve_ode_m solve_ivp_known_m [0, 1] 0 0 0 0 (1 / 10 ^ 10) (1 / 10 ^ 10))
       (attrs p1)
     = (Some (Inr ([0, 0], [0, 0], [0, 0], [0, 0])), attrs p1)"
proof -
  have outcome: "fst (run_state
                 (solve_ode_m solve_ivp_known_m [0, 1] 0 0 0 0 (1 / 10 ^ 10) (1 / 10 ^ 10))
                 (attrs p1))
               = Some (Inr ([0, 0], [0, 0], [0, 0], [0, 0]))"
    by (simp add: solve_ode_m_solve_ode [where S = solve_ivp_known]
          solve_ivp_known_m_solve_ivp_known solve_ode_def solve_ivp_known_def known_outcome_def
          t_eval_accepted_def p1_at_rest)
  from instance_unchanged
         [of solve_ivp_known_m 1 1 1 1 1 0 "[pi / 2, 0, pi, 0]" "attrs p1" "[0, 1]" 0 0 0 0
             "1 / 10 ^ 10" "1 / 10 ^ 10", OF keeps_solve_ivp_known_m]
       outcome
  show ?thesis
    by (simp add: attrs_def p1_def init_def prod_eq_iff)
qed

end
